theory Spec2Isabelle
  imports Main
begin

section \<open>JavaScript values\<close>

text \<open>
  The values a job function can return or throw, and the error objects of the store:
  a fragment of the JavaScript value universe. Numbers are the integral ones (timestamps
  in milliseconds, error codes, counts); an object is the list of its own properties.
\<close>

datatype jsval =
    JUndefined
  | JNull
  | JBool bool
  | JNum int
  | JStr string
  | JObj "(string \<times> jsval) list"

text \<open>Truthiness, as \<^verbatim>\<open>e && ...\<close> and \<^verbatim>\<open>cond ? a : b\<close> test it.\<close>

fun truthy :: "jsval \<Rightarrow> bool" where
  "truthy JUndefined = False"
| "truthy JNull = False"
| "truthy (JBool b) = b"
| "truthy (JNum n) = (n \<noteq> 0)"
| "truthy (JStr s) = (s \<noteq> [])"
| "truthy (JObj ps) = True"

text \<open>
  Reading a property \<^verbatim>\<open>e.p\<close> of a value that is not null or undefined: an object
  gives its own property, a primitive has none of the properties read here
  (\<^verbatim>\<open>stack\<close>, \<^verbatim>\<open>code\<close>, \<^verbatim>\<open>message\<close>).
\<close>

fun getprop :: "jsval \<Rightarrow> string \<Rightarrow> jsval" where
  "getprop (JObj ps) p = (case map_of ps p of Some v \<Rightarrow> v | None \<Rightarrow> JUndefined)"
| "getprop v p = JUndefined"

text \<open>Decimal digits of a natural number, for numbers inside template literals.\<close>

fun digits :: "nat \<Rightarrow> string" where
  "digits n =
     (if n < 10 then [char_of (48 + n)]
      else digits (n div 10) @ [char_of (48 + n mod 10)])"

declare digits.simps [simp del]

text \<open>
  String conversion of a value interpolated into a template literal. A plain object
  prints as \<^verbatim>\<open>[object Object]\<close>.
\<close>

fun toString :: "jsval \<Rightarrow> string" where
  "toString JUndefined = ''undefined''"
| "toString JNull = ''null''"
| "toString (JBool b) = (if b then ''true'' else ''false'')"
| "toString (JNum n) = (if n < 0 then ''-'' @ digits (nat (- n)) else digits (nat n))"
| "toString (JStr s) = s"
| "toString (JObj ps) = ''[object Object]''"

text \<open>
  \<^verbatim>\<open>e && e.stack ? e.stack : e\<close>: the stack of an error that has one, the thrown
  value itself otherwise. The conjunction guards the property read, so a null or
  undefined \<^verbatim>\<open>e\<close> is returned as it is.
\<close>

definition error_detail :: "jsval \<Rightarrow> jsval" where
  "error_detail e = (if truthy e \<and> truthy (getprop e ''stack'') then getprop e ''stack'' else e)"

text \<open>
  The TypeError of reading \<^verbatim>\<open>.getTime\<close> or \<^verbatim>\<open>.clear\<close> of undefined.
\<close>

definition TypeError :: "string \<Rightarrow> jsval" where
  "TypeError p =
     JObj [(''name'', JStr ''TypeError''),
           (''message'', JStr (''Cannot read properties of undefined (reading '' @ [CHR 0x27] @ p @ [CHR 0x27] @
                             '')''))]"

text \<open>How a call ends: normally, or with a thrown value.\<close>

datatype completion = Normal | Throw jsval

section \<open>Occurrence source and the single-shot timer (\<^verbatim>\<open>_laterSetTimeout\<close>)\<close>

text \<open>
  A compiled Later schedule, seen through its one operation: the occurrence timestamps
  (milliseconds since the epoch) from a start time on, ascending. \<^verbatim>\<open>s.next(k, now)\<close>
  is the first \<open>k\<close> of them; Later answers a schedule with no occurrence left by the number
  0 (\<^verbatim>\<open>later.NEVER\<close>), whose every index reads undefined like an empty array's, and a
  schedule with fewer than \<open>k\<close> occurrences left by a shorter array.
\<close>

type_synonym schedule = "int \<Rightarrow> int list"

definition later_next :: "schedule \<Rightarrow> nat \<Rightarrow> int \<Rightarrow> int list" where
  "later_next s k now = take k (s now)"

text \<open>
  A pending \<^verbatim>\<open>setTimeout\<close>: either the callback bound to its intended timestamp,
  \<^verbatim>\<open>setTimeout(async () => { await fn(intendedAt) }, diff)\<close>, or the wake-up that only
  runs the scheduling step again, \<^verbatim>\<open>setTimeout(scheduleTimeout, 2147483647)\<close>.
  The first argument is the delay in milliseconds.
\<close>

datatype timeout =
    Callback int int
  | Reschedule int

text \<open>
  Lines 363 to 370 of \<^verbatim>\<open>scheduleTimeout\<close>: the delay and the intended timestamp, from
  the first occurrence \<open>n0\<close> of the query's answer and the occurrences \<open>rest\<close> after it.
  Reading \<^verbatim>\<open>next[1].getTime()\<close> raises when the answer has no second occurrence.
\<close>

definition chosen :: "int \<Rightarrow> int list \<Rightarrow> int \<Rightarrow> jsval + (int \<times> int)" where
  "chosen n0 rest now =
     (if n0 - now < 1000 then
        (case rest of
           [] \<Rightarrow> Inl (TypeError ''getTime'')
         | n1 # _ \<Rightarrow> Inr (n1 - now, n1))
      else Inr (n0 - now, n0))"

text \<open>Lines 372 to 378: the timeout armed for a delay and an intended timestamp.\<close>

definition arm :: "int \<Rightarrow> int \<Rightarrow> timeout" where
  "arm diff intendedAt =
     (if diff < 2147483647 then Callback diff intendedAt else Reschedule 2147483647)"

text \<open>
  One run of \<^verbatim>\<open>scheduleTimeout\<close> inside \<^verbatim>\<open>_laterSetTimeout\<close> at time \<open>now\<close>: the
  timeout it leaves pending (none when the schedule is exhausted and the step returns at
  line 361), or the exception it raises.
\<close>

definition scheduleTimeout :: "schedule \<Rightarrow> int \<Rightarrow> jsval + timeout option" where
  "scheduleTimeout s now =
     (case later_next s 2 now of
        [] \<Rightarrow> Inr None
      | n0 # rest \<Rightarrow>
          (case chosen n0 rest now of
             Inl e \<Rightarrow> Inl e
           | Inr (diff, intendedAt) \<Rightarrow> Inr (Some (arm diff intendedAt))))"

text \<open>
  \<^verbatim>\<open>_laterSetTimeout(fn, sched)\<close> runs the scheduling step once before it returns
  its handle.
\<close>

definition laterSetTimeout :: "schedule \<Rightarrow> int \<Rightarrow> jsval + timeout option" where
  "laterSetTimeout s now = scheduleTimeout s now"

section \<open>The job history collection\<close>

text \<open>
  The collection is Meteor's \<^verbatim>\<open>Mongo.Collection\<close>, a collaborator outside the package:
  it is modelled at the interface the package uses (insert under a unique index, update
  by \<^verbatim>\<open>_id\<close>, index creation). The background expiry of documents is not part of the
  model.

  A document of the history collection (a Run Record). The three fields written on
  completion are absent until an update's \<^verbatim>\<open>$set\<close> names them; a field counts as set
  once it is named, whatever the value.
\<close>

record run_record =
  r_id :: nat
  r_intendedAt :: int
  r_name :: string
  r_startedAt :: int
  r_finishedAt :: "int option"
  r_result :: "jsval option"
  r_error :: "jsval option"

text \<open>
  The two indexes the startup hook asks for: \<^verbatim>\<open>{intendedAt: 1, name: 1}\<close> with
  \<^verbatim>\<open>{unique: true}\<close>, and \<^verbatim>\<open>{startedAt: 1}\<close> with \<^verbatim>\<open>{expireAfterSeconds: ttl}\<close>.
\<close>

datatype index = UniqueKey | ExpireAfterSeconds int

text \<open>
  The collection as the package uses it: its documents in insertion order, its indexes,
  the next fresh \<^verbatim>\<open>_id\<close>, and a fault: when the store is failing, the properties of the
  error object with which it rejects an insert or an index creation.
\<close>

record collection =
  docs :: "run_record list"
  indexes :: "index list"
  next_id :: nat
  fault :: "(string \<times> jsval) list option"

definition has_key :: "collection \<Rightarrow> int \<Rightarrow> string \<Rightarrow> bool" where
  "has_key c intendedAt name =
     list_ex (\<lambda>d. r_intendedAt d = intendedAt \<and> r_name d = name) (docs c)"

definition duplicate_key_error :: jsval where
  "duplicate_key_error =
     JObj [(''code'', JNum 11000), (''message'', JStr ''E11000 duplicate key error'')]"

text \<open>
  \<^verbatim>\<open>insertAsync({intendedAt, name, startedAt})\<close>: answers the new \<^verbatim>\<open>_id\<close>, or raises the
  store's fault, or raises the duplicate key error (code 11000) when the unique index is
  in place and a document with the same \<^verbatim>\<open>(intendedAt, name)\<close> is there.
\<close>

definition insertAsync ::
  "collection \<Rightarrow> int \<Rightarrow> string \<Rightarrow> int \<Rightarrow> jsval + (nat \<times> collection)" where
  "insertAsync c intendedAt name startedAt =
     (case fault c of
        Some err \<Rightarrow> Inl (JObj err)
      | None \<Rightarrow>
          if UniqueKey \<in> set (indexes c) \<and> has_key c intendedAt name
          then Inl duplicate_key_error
          else Inr (next_id c,
                 c\<lparr>docs := docs c @
                      [\<lparr>r_id = next_id c, r_intendedAt = intendedAt, r_name = name,
                        r_startedAt = startedAt, r_finishedAt = None,
                        r_result = None, r_error = None\<rparr>],
                   next_id := next_id c + 1\<rparr>))"

text \<open>
  \<^verbatim>\<open>updateAsync({_id: id}, {$set: ...})\<close>: the first document with that \<^verbatim>\<open>_id\<close> gets
  the fields set. The argument \<open>f\<close> is the \<^verbatim>\<open>$set\<close>, as a function on documents.
\<close>

fun update_first ::
  "nat \<Rightarrow> (run_record \<Rightarrow> run_record) \<Rightarrow> run_record list \<Rightarrow> run_record list" where
  "update_first i f [] = []"
| "update_first i f (d # ds) = (if r_id d = i then f d # ds else d # update_first i f ds)"

definition updateAsync ::
  "collection \<Rightarrow> nat \<Rightarrow> (run_record \<Rightarrow> run_record) \<Rightarrow> collection" where
  "updateAsync c i f = c\<lparr>docs := update_first i f (docs c)\<rparr>"

definition set_result :: "int \<Rightarrow> jsval \<Rightarrow> run_record \<Rightarrow> run_record" where
  "set_result now output d = d\<lparr>r_finishedAt := Some now, r_result := Some output\<rparr>"

definition set_error :: "int \<Rightarrow> jsval \<Rightarrow> run_record \<Rightarrow> run_record" where
  "set_error now e d = d\<lparr>r_finishedAt := Some now, r_error := Some e\<rparr>"

text \<open>
  \<^verbatim>\<open>createIndexAsync\<close>: the index is added (once), unless the store is failing.
\<close>

definition createIndexAsync :: "collection \<Rightarrow> index \<Rightarrow> jsval + collection" where
  "createIndexAsync c ix =
     (case fault c of
        Some err \<Rightarrow> Inl (JObj err)
      | None \<Rightarrow> Inr (c\<lparr>indexes := List.insert ix (indexes c)\<rparr>))"

section \<open>Options, logger, jobs and the scheduler's state\<close>

record options =
  opt_log :: bool
  opt_logger :: bool
  collectionName :: string
  utc :: bool
  collectionTTL :: "int option"

text \<open>
  \<open>opt_log\<close> is false when \<^verbatim>\<open>options.log === false\<close>; \<open>opt_logger\<close> says that
  \<^verbatim>\<open>options.logger\<close> is a function; \<open>collectionTTL\<close> is a number of seconds, or
  \<open>None\<close> for null or undefined.
\<close>

definition default_options :: options where
  "default_options =
     \<lparr>opt_log = True, opt_logger = False, collectionName = ''cronHistory'',
      utc = False, collectionTTL = Some 172800\<rparr>"

datatype level = Info | Error | Warn | Debug

text \<open>
  What \<^verbatim>\<open>createLogger(prefix)\<close> returns: the function that does nothing, or the one that
  hands a message to the sink.
\<close>

datatype logger = Noop | Emit string

definition createLogger :: "options \<Rightarrow> string \<Rightarrow> logger" where
  "createLogger opts prefix = (if \<not> opt_log opts then Noop else Emit prefix)"

text \<open>
  What reaches a sink: a call of the injected logger with \<^verbatim>\<open>{level, message, tag}\<close>, or a
  line on the console at that level.
\<close>

datatype log_line = ToLogger level string string | ToConsole level string

datatype job_outcome = Returns jsval | Throws jsval

text \<open>
  A registered entry: name, schedule (the Later schedule that \<^verbatim>\<open>entry.schedule(Later.parse)\<close>
  gives), job function (called with the intended timestamp and the name; it returns a
  value or throws one), the persist flag, and \<^verbatim>\<open>entry._timer\<close>, which holds the handle of
  the entry's timer once it was scheduled.
\<close>

record entry =
  e_name :: string
  e_schedule :: schedule
  e_job :: "int \<Rightarrow> string \<Rightarrow> job_outcome"
  e_persist :: bool
  e_timer :: "nat option"

text \<open>
  The state one \<^verbatim>\<open>_laterSetInterval\<close> call closes over: the entry its wrapped callback
  runs, the \<^verbatim>\<open>done\<close> flag, and the timeout pending for it, if any.
\<close>

record chain =
  ch_entry :: entry
  ch_done :: bool
  ch_t :: "timeout option"

text \<open>
  The scheduler's state after the startup hook: \<^verbatim>\<open>SyncedCron._entries\<close> in insertion
  order, \<^verbatim>\<open>running\<close>, the options, the collection, the logger \<^verbatim>\<open>log\<close>, and around it
  the timers created so far (a handle is a position in \<open>chains\<close>), the clock, what the
  log sinks received, the calls of job functions made so far (name and intended
  timestamp), and the platform's rendering of a date in a message.
\<close>

record world =
  entries :: "entry list"
  running :: bool
  w_options :: options
  w_collection :: collection
  w_log :: logger
  chains :: "chain list"
  clock :: int
  log_out :: "log_line list"
  job_calls :: "(string \<times> int) list"
  date_string :: "int \<Rightarrow> string"

text \<open>
  One call \<^verbatim>\<open>log(level, message)\<close>: nothing for the no-op logger; otherwise the injected
  logger is called if there is one, and the console is written if not.
\<close>

definition log_lines :: "world \<Rightarrow> level \<Rightarrow> string \<Rightarrow> log_line list" where
  "log_lines w lv message =
     (case w_log w of
        Noop \<Rightarrow> []
      | Emit prefix \<Rightarrow>
          if opt_logger (w_options w) then [ToLogger lv message prefix]
          else [ToConsole lv (prefix @ '': '' @ message)])"

definition log_msg :: "level \<Rightarrow> string \<Rightarrow> world \<Rightarrow> world" where
  "log_msg lv message w = w\<lparr>log_out := log_out w @ log_lines w lv message\<rparr>"

section \<open>The wrapped callback (\<^verbatim>\<open>_entryWrapper\<close>)\<close>

text \<open>
  \<^verbatim>\<open>intendedAt.setMilliseconds(0)\<close> on a copy of the date: the timestamp with its
  milliseconds component, \<open>t mod 1000\<close> for timestamps before the epoch as well, set to zero.
\<close>

definition setMilliseconds0 :: "int \<Rightarrow> int" where
  "setMilliseconds0 t = t - t mod 1000"

text \<open>
  Lines 257 to 287: run the job and record the outcome. \<open>jid\<close> is \<^verbatim>\<open>jobHistory._id\<close>,
  there exactly when the entry persists. A job function is a function of its two
  arguments that returns or throws and touches neither the scheduler nor the
  collection; the calls of the logger and of \<^verbatim>\<open>updateAsync\<close> do not raise; and the
  whole call runs without another one in between.
\<close>

definition run_and_record :: "entry \<Rightarrow> int \<Rightarrow> nat option \<Rightarrow> world \<Rightarrow> world" where
  "run_and_record entry intendedAt jid w =
     (let w1 = log_msg Info (''Starting \"'' @ e_name entry @ ''\".'') w;
          w2 = w1\<lparr>job_calls := job_calls w1 @ [(e_name entry, intendedAt)]\<rparr>
      in case e_job entry intendedAt (e_name entry) of
           Returns output \<Rightarrow>
             (let w3 = log_msg Info (''Finished \"'' @ e_name entry @ ''\".'') w2
              in case jid of
                   Some i \<Rightarrow>
                     w3\<lparr>w_collection :=
                          updateAsync (w_collection w3) i (set_result (clock w3) output)\<rparr>
                 | None \<Rightarrow> w3)
         | Throws e \<Rightarrow>
             (let w3 = log_msg Error
                         (''Exception \"'' @ e_name entry @ ''\" '' @ toString (error_detail e)) w2
              in case jid of
                   Some i \<Rightarrow>
                     w3\<lparr>w_collection :=
                          updateAsync (w_collection w3) i (set_error (clock w3) (error_detail e))\<rparr>
                 | None \<Rightarrow> w3))"

text \<open>
  The function \<^verbatim>\<open>_entryWrapper(entry)\<close> returns, called with an intended timestamp.
  It returns no value; it ends normally or with the exception of a failed insert that
  is not a duplicate key error.
\<close>

definition entryWrapper :: "entry \<Rightarrow> int \<Rightarrow> world \<Rightarrow> completion \<times> world" where
  "entryWrapper entry t w =
     (let intendedAt = setMilliseconds0 t in
      if e_persist entry then
        (case insertAsync (w_collection w) intendedAt (e_name entry) (clock w) of
           Inl e \<Rightarrow>
             if getprop e ''code'' = JNum 11000
             then (Normal, log_msg Info (''Not running \"'' @ e_name entry @ ''\" again.'') w)
             else (Throw e, w)
         | Inr (i, c) \<Rightarrow>
             (Normal, run_and_record entry intendedAt (Some i) (w\<lparr>w_collection := c\<rparr>)))
      else (Normal, run_and_record entry intendedAt None w))"

section \<open>The startup hook\<close>

definition minTTL :: int where
  "minTTL = 300"

text \<open>
  Lines 96 to 116: the unique index, then the expiry index when the configured TTL is
  truthy and above \<open>minTTL\<close>; a failure of either creation is caught and logged.
\<close>

definition create_indexes :: "world \<Rightarrow> world" where
  "create_indexes w =
     (case createIndexAsync (w_collection w) UniqueKey of
        Inl error \<Rightarrow>
          log_msg Error (''Error creating indexes: '' @ toString (getprop error ''message'')) w
      | Inr c1 \<Rightarrow>
          (case collectionTTL (w_options w) of
             None \<Rightarrow> w\<lparr>w_collection := c1\<rparr>
           | Some ttl \<Rightarrow>
               if ttl = 0 then w\<lparr>w_collection := c1\<rparr>
               else if ttl > minTTL then
                 (case createIndexAsync c1 (ExpireAfterSeconds ttl) of
                    Inl error \<Rightarrow>
                      log_msg Error
                        (''Error creating indexes: '' @ toString (getprop error ''message''))
                        (w\<lparr>w_collection := c1\<rparr>)
                  | Inr c2 \<Rightarrow> w\<lparr>w_collection := c2\<rparr>)
               else
                 log_msg Warn
                   (''Not going to use a TTL that is shorter than: '' @ toString (JNum minTTL))
                   (w\<lparr>w_collection := c1\<rparr>)))"

text \<open>
  The callback given to \<^verbatim>\<open>Meteor.startup\<close> at line 73, run with the options configured
  by then, the entries added by then, the collection as the database holds it, the time
  and the platform's date rendering.
\<close>

definition startup ::
  "options \<Rightarrow> entry list \<Rightarrow> collection \<Rightarrow> int \<Rightarrow> (int \<Rightarrow> string) \<Rightarrow> world" where
  "startup opts es db now ds =
     create_indexes
       \<lparr>entries = es, running = False, w_options = opts, w_collection = db,
        w_log = createLogger opts ''SyncedCron'', chains = [], clock = now,
        log_out = [], job_calls = [], date_string = ds\<rparr>"

section \<open>The recurring timer (\<^verbatim>\<open>_laterSetInterval\<close>) and the registry\<close>

text \<open>
  \<^verbatim>\<open>_laterSetInterval(_entryWrapper(entry), schedule)\<close>: the first scheduling step runs at
  once; the handle returned is the position of the new chain. An exception of the
  scheduling step leaves the call before anything is created.
\<close>

definition laterSetInterval :: "entry \<Rightarrow> world \<Rightarrow> jsval + (nat \<times> world)" where
  "laterSetInterval entry w =
     (case laterSetTimeout (e_schedule entry) (clock w) of
        Inl e \<Rightarrow> Inl e
      | Inr t \<Rightarrow>
          Inr (length (chains w),
               w\<lparr>chains := chains w @ [\<lparr>ch_entry = entry, ch_done = False, ch_t = t\<rparr>]\<rparr>))"

text \<open>The assignment \<^verbatim>\<open>entry._timer = handle\<close> on the registered entry of that name.\<close>

definition set_timer :: "string \<Rightarrow> nat \<Rightarrow> entry list \<Rightarrow> entry list" where
  "set_timer name h es =
     map (\<lambda>e. if e_name e = name then e\<lparr>e_timer := Some h\<rparr> else e) es"

text \<open>\<^verbatim>\<open>Later.schedule(schedule).next(1)\<close> inside the message: a date, or 0 for never.\<close>

definition next_run_string :: "entry \<Rightarrow> world \<Rightarrow> string" where
  "next_run_string entry w =
     (case later_next (e_schedule entry) 1 (clock w) of
        [] \<Rightarrow> toString (JNum 0)
      | d # _ \<Rightarrow> date_string w d)"

definition scheduleEntry :: "entry \<Rightarrow> world \<Rightarrow> completion \<times> world" where
  "scheduleEntry entry w =
     (case laterSetInterval entry w of
        Inl e \<Rightarrow> (Throw e, w)
      | Inr (h, w1) \<Rightarrow>
          (Normal,
           log_msg Info
             (''Scheduled \"'' @ e_name entry @ ''\" next run @ '' @ next_run_string entry w1)
             (w1\<lparr>entries := set_timer (e_name entry) h (entries w1)\<rparr>)))"

text \<open>\<^verbatim>\<open>SyncedCron.add\<close>, for an entry that passed the checks of its fields.\<close>

definition add :: "entry \<Rightarrow> world \<Rightarrow> completion \<times> world" where
  "add entry w =
     (if find (\<lambda>e. e_name e = e_name entry) (entries w) = None then
        (let w1 = w\<lparr>entries := entries w @ [entry]\<rparr>
         in if running w1 then scheduleEntry entry w1 else (Normal, w1))
      else (Normal, w))"

text \<open>
  \<^verbatim>\<open>Object.values(self._entries).forEach((entry) => { scheduleEntry(entry) })\<close>: an
  exception ends the loop, and what the earlier rounds did stays done.
\<close>

fun scheduleEach :: "entry list \<Rightarrow> world \<Rightarrow> completion \<times> world" where
  "scheduleEach [] w = (Normal, w)"
| "scheduleEach (e # es) w =
     (case scheduleEntry e w of
        (Normal, w1) \<Rightarrow> scheduleEach es w1
      | (Throw x, w1) \<Rightarrow> (Throw x, w1))"

text \<open>\<^verbatim>\<open>SyncedCron.start\<close>, called once the startup hooks have run.\<close>

definition start :: "world \<Rightarrow> completion \<times> world" where
  "start w =
     (case scheduleEach (entries w) w of
        (Normal, w1) \<Rightarrow> (Normal, w1\<lparr>running := True\<rparr>)
      | (Throw x, w1) \<Rightarrow> (Throw x, w1))"

text \<open>
  \<^verbatim>\<open>clear()\<close> of an interval handle: \<^verbatim>\<open>done = true\<close>, and the pending timeout is
  cleared.
\<close>

definition clear_interval :: "nat \<Rightarrow> world \<Rightarrow> world" where
  "clear_interval h w =
     (if h < length (chains w)
      then w\<lparr>chains := (chains w)[h := (chains w ! h)\<lparr>ch_done := True, ch_t := None\<rparr>]\<rparr>
      else w)"

text \<open>
  \<^verbatim>\<open>Object.values(this._entries).forEach((entry) => { entry._timer.clear() })\<close>: reading
  \<^verbatim>\<open>clear\<close> of an undefined \<^verbatim>\<open>_timer\<close> raises.
\<close>

fun clearEach :: "entry list \<Rightarrow> world \<Rightarrow> completion \<times> world" where
  "clearEach [] w = (Normal, w)"
| "clearEach (e # es) w =
     (case e_timer e of
        None \<Rightarrow> (Throw (TypeError ''clear''), w)
      | Some h \<Rightarrow> clearEach es (clear_interval h w))"

definition pause :: "world \<Rightarrow> completion \<times> world" where
  "pause w =
     (if running w then
        (case clearEach (entries w) w of
           (Normal, w1) \<Rightarrow> (Normal, w1\<lparr>running := False\<rparr>)
         | (Throw x, w1) \<Rightarrow> (Throw x, w1))
      else (Normal, w))"

section \<open>Timeouts firing\<close>

definition set_pending :: "nat \<Rightarrow> timeout option \<Rightarrow> world \<Rightarrow> world" where
  "set_pending h t w =
     (if h < length (chains w)
      then w\<lparr>chains := (chains w)[h := (chains w ! h)\<lparr>ch_t := t\<rparr>]\<rparr>
      else w)"

text \<open>
  \<^verbatim>\<open>scheduleTimeout(intendedAt)\<close> of \<^verbatim>\<open>_laterSetInterval\<close> (lines 319 to 329) for the
  chain \<open>h\<close>: unless the chain is done, the wrapped callback runs, an exception of it is
  caught and logged, and a new single-shot timer is set.
\<close>

definition interval_scheduleTimeout :: "nat \<Rightarrow> int \<Rightarrow> world \<Rightarrow> completion \<times> world" where
  "interval_scheduleTimeout h intendedAt w =
     (let c = chains w ! h in
      if ch_done c then (Normal, w)
      else
        (let (r, w1) = entryWrapper (ch_entry c) intendedAt w;
             w2 = (case r of
                     Normal \<Rightarrow> w1
                   | Throw e \<Rightarrow>
                       log_msg Error
                         (''Exception running scheduled job '' @ toString (error_detail e)) w1)
         in case laterSetTimeout (e_schedule (ch_entry c)) (clock w2) of
              Inl e \<Rightarrow> (Throw e, w2)
            | Inr t \<Rightarrow> (Normal, set_pending h t w2)))"

text \<open>
  The pending timeout of chain \<open>h\<close> elapses: it is pending no more, and its function
  runs: the interval's callback with the intended timestamp it was bound to, or the
  scheduling step alone.
\<close>

definition timeout_fire :: "nat \<Rightarrow> world \<Rightarrow> completion \<times> world" where
  "timeout_fire h w =
     (if h < length (chains w) then
        (case ch_t (chains w ! h) of
           None \<Rightarrow> (Normal, w)
         | Some (Callback diff intendedAt) \<Rightarrow>
             interval_scheduleTimeout h intendedAt (set_pending h None w)
         | Some (Reschedule diff) \<Rightarrow>
             (case scheduleTimeout (e_schedule (ch_entry (chains w ! h))) (clock w) of
                Inl e \<Rightarrow> (Throw e, set_pending h None w)
              | Inr t \<Rightarrow> (Normal, set_pending h t w)))
      else (Normal, w))"

text \<open>Time passing between two events.\<close>

definition elapse :: "int \<Rightarrow> world \<Rightarrow> world" where
  "elapse ms w = w\<lparr>clock := clock w + ms\<rparr>"

section \<open>Example schedules, jobs and states\<close>

text \<open>
  A periodic schedule of period \<open>p\<close> milliseconds, answering as Later does: while the
  start time lies within the second of an occurrence, that start time itself is the
  first occurrence returned, and the next period's occurrence the second.
\<close>

definition every :: "int \<Rightarrow> schedule" where
  "every p now =
     (let n = (now div p) * p
      in if now < n + 1000 then [now, n + p] else [n + p, n + 2 * p])"

text \<open>A one-off schedule, \<^verbatim>\<open>Later.parse.recur().on(date).fullDate()\<close>.\<close>

definition one_off :: "int \<Rightarrow> schedule" where
  "one_off d now = (if now \<le> d then [d] else [])"

text \<open>The jobs of the test suite: one returns \<^verbatim>\<open>'ran'\<close>, one throws an error.\<close>

definition job_ran :: "int \<Rightarrow> string \<Rightarrow> job_outcome" where
  "job_ran t name = Returns (JStr ''ran'')"


definition TestEntry :: entry where
  "TestEntry =
     \<lparr>e_name = ''Test Job'', e_schedule = every 60000, e_job = job_ran,
      e_persist = True, e_timer = None\<rparr>"


definition OneOffEntry :: entry where
  "OneOffEntry = TestEntry\<lparr>e_name := ''Once'', e_schedule := one_off 1000\<rparr>"

definition empty_db :: collection where
  "empty_db = \<lparr>docs = [], indexes = [], next_id = 0, fault = None\<rparr>"

definition plain_date :: "int \<Rightarrow> string" where
  "plain_date t = toString (JNum t)"

text \<open>
  States after the startup hook, at time 5000123 over an empty database: with the
  default options, and with logging switched off.
\<close>

definition fresh_world :: world where
  "fresh_world = startup default_options [] empty_db 5000123 plain_date"


text \<open>One entry registered and not started; the same after \<^verbatim>\<open>start()\<close>.\<close>

definition idle_world :: world where
  "idle_world = snd (add TestEntry fresh_world)"





text \<open>A monthly job, started 105 ms into the second of an occurrence.\<close>

definition MonthlyEntry :: entry where
  "MonthlyEntry = TestEntry\<lparr>e_name := ''Monthly'', e_schedule := every 2678400000\<rparr>"

definition monthly_world :: world where
  "monthly_world =
     snd (start (snd (add MonthlyEntry (startup default_options [] empty_db 105 plain_date))))"



section \<open>Auxiliary notions\<close>


definition outcome_set :: "int \<Rightarrow> job_outcome \<Rightarrow> run_record \<Rightarrow> run_record" where
  "outcome_set now r = (case r of Returns v \<Rightarrow> set_result now v | Throws x \<Rightarrow> set_error now (error_detail x))"

section \<open>Properties of the collection and of the wrapped callback\<close>

lemma update_first_keys:
  assumes "\<And>d. r_intendedAt (f d) = r_intendedAt d \<and> r_name (f d) = r_name d"
  shows "map (\<lambda>d. (r_intendedAt d, r_name d)) (update_first i f ds) =
         map (\<lambda>d. (r_intendedAt d, r_name d)) ds"
  by (induction ds) (simp_all add: assms)

lemma length_update_first [simp]: "length (update_first i f ds) = length ds"
  by (induction ds) simp_all

lemma has_key_iff:
  "has_key c k n \<longleftrightarrow> (k, n) \<in> set (map (\<lambda>d. (r_intendedAt d, r_name d)) (docs c))"
  by (auto simp: has_key_def list_ex_iff)

lemma has_key_updateAsync_result [simp]:
  "has_key (updateAsync c i (set_result now v)) k n = has_key c k n"
  by (simp add: has_key_iff updateAsync_def update_first_keys set_result_def)

lemma has_key_updateAsync_error [simp]:
  "has_key (updateAsync c i (set_error now v)) k n = has_key c k n"
  by (simp add: has_key_iff updateAsync_def update_first_keys set_error_def)

lemma updateAsync_frame [simp]:
  "indexes (updateAsync c i f) = indexes c"
  "fault (updateAsync c i f) = fault c"
  "next_id (updateAsync c i f) = next_id c"
  "length (docs (updateAsync c i f)) = length (docs c)"
  by (simp_all add: updateAsync_def)

lemma log_msg_frame [simp]:
  "entries (log_msg lv m w) = entries w"
  "running (log_msg lv m w) = running w"
  "w_options (log_msg lv m w) = w_options w"
  "w_collection (log_msg lv m w) = w_collection w"
  "w_log (log_msg lv m w) = w_log w"
  "chains (log_msg lv m w) = chains w"
  "clock (log_msg lv m w) = clock w"
  "job_calls (log_msg lv m w) = job_calls w"
  "date_string (log_msg lv m w) = date_string w"
  "log_out (log_msg lv m w) = log_out w @ log_lines w lv m"
  by (simp_all add: log_msg_def)

lemma log_lines_frame [simp]:
  "log_lines (log_msg lv' m' w) lv m = log_lines w lv m"
  "log_lines (w\<lparr>job_calls := j\<rparr>) lv m = log_lines w lv m"
  "log_lines (w\<lparr>w_collection := c\<rparr>) lv m = log_lines w lv m"
  "log_lines (w\<lparr>chains := cs\<rparr>) lv m = log_lines w lv m"
  "log_lines (w\<lparr>entries := es\<rparr>) lv m = log_lines w lv m"
  "log_lines (w\<lparr>running := b\<rparr>) lv m = log_lines w lv m"
  "log_lines (w\<lparr>clock := k\<rparr>) lv m = log_lines w lv m"
  by (simp_all add: log_lines_def log_msg_def split: logger.split)

lemma log_lines_log_out [simp]:
  "log_lines (w\<lparr>log_out := l\<rparr>) lv m = log_lines w lv m"
  by (simp add: log_lines_def split: logger.split)

lemma run_and_record_frame [simp]:
  "entries (run_and_record e a jid w) = entries w"
  "running (run_and_record e a jid w) = running w"
  "w_options (run_and_record e a jid w) = w_options w"
  "w_log (run_and_record e a jid w) = w_log w"
  "chains (run_and_record e a jid w) = chains w"
  "clock (run_and_record e a jid w) = clock w"
  "date_string (run_and_record e a jid w) = date_string w"
  "job_calls (run_and_record e a jid w) = job_calls w @ [(e_name e, a)]"
  by (simp_all add: run_and_record_def Let_def split: job_outcome.split option.split)



lemma duplicate_code [simp]: "getprop duplicate_key_error ''code'' = JNum 11000"
  by (simp add: duplicate_key_error_def)




lemma outcome_set_keys [simp]:
  "r_intendedAt (outcome_set now r d) = r_intendedAt d"
  "r_name (outcome_set now r d) = r_name d"
  "r_id (outcome_set now r d) = r_id d"
  by (simp_all add: outcome_set_def set_result_def set_error_def split: job_outcome.split)



lemma has_key_outcome [simp]:
  "has_key (updateAsync c i (outcome_set now r)) k n = has_key c k n"
  by (simp add: has_key_iff updateAsync_def update_first_keys)




lemma entryWrapper_frame [simp]:
  "entries (snd (entryWrapper e t w)) = entries w"
  "running (snd (entryWrapper e t w)) = running w"
  "w_options (snd (entryWrapper e t w)) = w_options w"
  "w_log (snd (entryWrapper e t w)) = w_log w"
  "chains (snd (entryWrapper e t w)) = chains w"
  "clock (snd (entryWrapper e t w)) = clock w"
  "date_string (snd (entryWrapper e t w)) = date_string w"
  by (simp_all add: entryWrapper_def Let_def split: sum.split prod.split)



section \<open>Properties of the timers and of the registry\<close>

lemma set_pending_frame [simp]:
  "entries (set_pending h t w) = entries w"
  "running (set_pending h t w) = running w"
  "w_collection (set_pending h t w) = w_collection w"
  "clock (set_pending h t w) = clock w"
  "job_calls (set_pending h t w) = job_calls w"
  "log_out (set_pending h t w) = log_out w"
  "length (chains (set_pending h t w)) = length (chains w)"
  by (simp_all add: set_pending_def)

lemma set_pending_twice [simp]:
  "set_pending h p (set_pending h q w) = set_pending h p w"
  by (simp add: set_pending_def)





lemma set_timer_props [simp]:
  "length (set_timer n h es) = length es"
  "map e_name (set_timer n h es) = map e_name es"
  "map (\<lambda>e. e\<lparr>e_timer := None\<rparr>) (set_timer n h es) = map (\<lambda>e. e\<lparr>e_timer := None\<rparr>) es"
  by (simp_all add: set_timer_def)



section \<open>Properties of the startup hook\<close>


lemma digits_300 [simp]: "digits 300 = ''300''"
  by code_simp

section \<open>The example states, evaluated\<close>





lemma fresh_world_eq:
  "fresh_world =
     \<lparr>entries = [], running = False, w_options = default_options,
      w_collection = \<lparr>docs = [], indexes = [ExpireAfterSeconds 172800, UniqueKey],
                       next_id = 0, fault = None\<rparr>,
      w_log = Emit ''SyncedCron'', chains = [], clock = 5000123, log_out = [],
      job_calls = [], date_string = plain_date\<rparr>"
  by (simp add: fresh_world_def startup_def create_indexes_def createIndexAsync_def
      default_options_def empty_db_def minTTL_def createLogger_def)




lemma idle_world_eq: "idle_world = fresh_world\<lparr>entries := [TestEntry]\<rparr>"
  by (simp add: idle_world_def add_def fresh_world_eq Let_def)




lemma monthly_world_chains:
  "chains monthly_world =
     [\<lparr>ch_entry = MonthlyEntry, ch_done = False, ch_t = Some (Reschedule 2147483647)\<rparr>] \<and>
   clock monthly_world = 105"
  by (simp add: monthly_world_def MonthlyEntry_def TestEntry_def start_def add_def
      scheduleEntry_def laterSetInterval_def laterSetTimeout_def scheduleTimeout_def
      later_next_def chosen_def arm_def every_def set_timer_def startup_def
      create_indexes_def createIndexAsync_def default_options_def empty_db_def minTTL_def
      Let_def)

section \<open>The claims\<close>




text \<open>
  Claim C2 fails on the code. A one-off schedule whose only occurrence, at 1000, is 999 ms
  away: the occurrence query answers one occurrence, its delay is below one second, and
  the scheduling step reads \<^verbatim>\<open>next[1].getTime()\<close> of an array of length one. The
  exception leaves \<^verbatim>\<open>_laterSetTimeout\<close>, and \<^verbatim>\<open>start()\<close> with it.
\<close>

theorem one_off_raises:
  "later_next (one_off 1000) 2 1 = [1000] \<and>
   laterSetTimeout (one_off 1000) 1 = Inl (TypeError ''getTime'') \<and>
   fst (start (snd (add OneOffEntry (startup default_options [] empty_db 1 plain_date)))) =
     Throw (TypeError ''getTime'')"
  by (simp add: laterSetTimeout_def scheduleTimeout_def later_next_def one_off_def chosen_def
      start_def add_def scheduleEntry_def laterSetInterval_def OneOffEntry_def TestEntry_def
      startup_def create_indexes_def createIndexAsync_def default_options_def empty_db_def
      minTTL_def Let_def)




text \<open>
  Claim C4, as amended. When the occurrence query answers two occurrences and the first
  is less than 1000 ms away, the second occurrence and its delay replace the first; the
  timeout is then the callback bound to the second occurrence, after that delay, when the
  delay is below 2147483647 ms, and the wake-up of the overflow rule otherwise.
\<close>

theorem minimum_delay_rule:
  assumes "later_next s 2 now = [n0, n1]" and "n0 - now < 1000"
  shows "chosen n0 [n1] now = Inr (n1 - now, n1) \<and>
         scheduleTimeout s now =
           Inr (Some (if n1 - now < 2147483647 then Callback (n1 - now) n1
                      else Reschedule 2147483647))"
  using assms by (simp add: scheduleTimeout_def chosen_def arm_def)

text \<open>
  A job every minute, half a second before an occurrence.
\<close>

theorem minimum_delay_rule_witness:
  "later_next (every 60000) 2 59500 = [60000, 120000] \<and> (60000::int) - 59500 < 1000 \<and>
   scheduleTimeout (every 60000) 59500 = Inr (Some (Callback 60500 120000))"
  using minimum_delay_rule [of "every 60000" 59500 60000 120000]
  by (simp add: later_next_def every_def Let_def)

text \<open>
  Claim C4 as stated has the timer set on the second occurrence's delay in every cycle.
  A monthly job just after its occurrence: the first occurrence answered is the current
  time, the second is 31 days away, and the timeout set is the wake-up at the ceiling,
  not the callback for the second occurrence.
\<close>

theorem minimum_delay_counterexample:
  "later_next (every 2678400000) 2 105 = [105, 2678400000] \<and> (105::int) - 105 < 1000 \<and>
   scheduleTimeout (every 2678400000) 105 = Inr (Some (Reschedule 2147483647)) \<and>
   scheduleTimeout (every 2678400000) 105 \<noteq>
     Inr (Some (Callback (2678400000 - 105) 2678400000))"
  by (simp add: scheduleTimeout_def later_next_def every_def chosen_def arm_def Let_def)

text \<open>
  Claim C5. In a scheduling cycle that computes a delay and an intended timestamp: a
  delay above 2147483647 ms arms the wake-up at exactly 2147483647 ms, and a callback is
  armed only with the computed delay and timestamp and only when the delay does not
  exceed the ceiling. When a wake-up fires, no job function is called, the collection and
  the log stay as they are, and the scheduling step alone runs again, leaving its timeout
  pending.
\<close>

theorem overflow_rule:
  assumes cycle: "later_next s 2 now = n0 # rest" "chosen n0 rest now = Inr (diff, intendedAt)"
    and wake: "h < length (chains w)" "ch_t (chains w ! h) = Some (Reschedule d)"
  shows "(2147483647 < diff \<longrightarrow> scheduleTimeout s now = Inr (Some (Reschedule 2147483647))) \<and>
         (\<forall>d' a. scheduleTimeout s now = Inr (Some (Callback d' a)) \<longrightarrow>
            d' = diff \<and> a = intendedAt \<and> diff \<le> 2147483647) \<and>
         job_calls (snd (timeout_fire h w)) = job_calls w \<and>
         w_collection (snd (timeout_fire h w)) = w_collection w \<and>
         log_out (snd (timeout_fire h w)) = log_out w \<and>
         (\<forall>p. scheduleTimeout (e_schedule (ch_entry (chains w ! h))) (clock w) = Inr p \<longrightarrow>
            timeout_fire h w = (Normal, set_pending h p w))"
proof -
  have armed: "scheduleTimeout s now = Inr (Some (arm diff intendedAt))"
    using cycle by (simp add: scheduleTimeout_def)
  have fire: "timeout_fire h w =
      (case scheduleTimeout (e_schedule (ch_entry (chains w ! h))) (clock w) of
         Inl e \<Rightarrow> (Throw e, set_pending h None w)
       | Inr p \<Rightarrow> (Normal, set_pending h p w))"
    using wake by (simp add: timeout_fire_def)
  show ?thesis
    by (auto simp: armed arm_def fire split: sum.splits if_splits)
qed

text \<open>
  The monthly job: the first cycle arms the wake-up, and when it fires 2147483647 ms
  later, the step arms the callback for the occurrence.
\<close>

theorem overflow_rule_witness:
  "later_next (every 2678400000) 2 105 = [105, 2678400000] \<and>
   chosen 105 [2678400000] 105 = Inr (2678399895, 2678400000) \<and>
   ch_t (chains (elapse 2147483647 monthly_world) ! 0) = Some (Reschedule 2147483647) \<and>
   scheduleTimeout (every 2678400000) 105 = Inr (Some (Reschedule 2147483647)) \<and>
   job_calls (snd (timeout_fire 0 (elapse 2147483647 monthly_world))) =
     job_calls (elapse 2147483647 monthly_world) \<and>
   timeout_fire 0 (elapse 2147483647 monthly_world) =
     (Normal,
      set_pending 0 (Some (Callback 530916248 2678400000)) (elapse 2147483647 monthly_world))"
proof -
  have c1: "later_next (every 2678400000) 2 105 = [105, 2678400000]"
    by (simp add: later_next_def every_def Let_def)
  have c2: "chosen 105 [2678400000] 105 = Inr (2678399895, 2678400000)"
    by (simp add: chosen_def)
  have w1: "0 < length (chains (elapse 2147483647 monthly_world))"
    by (simp add: elapse_def monthly_world_chains)
  have w2: "ch_t (chains (elapse 2147483647 monthly_world) ! 0) = Some (Reschedule 2147483647)"
    by (simp add: elapse_def monthly_world_chains)
  have nxt: "scheduleTimeout (e_schedule (ch_entry (chains (elapse 2147483647 monthly_world) ! 0)))
      (clock (elapse 2147483647 monthly_world)) = Inr (Some (Callback 530916248 2678400000))"
    by (simp add: elapse_def monthly_world_chains MonthlyEntry_def TestEntry_def
        scheduleTimeout_def later_next_def every_def chosen_def arm_def Let_def)
  from overflow_rule [OF c1 c2 w1 w2] nxt show ?thesis
    using c1 c2 w2 by simp
qed











text \<open>
  Claim C10. \<^verbatim>\<open>pause()\<close> on a scheduler that is not running ends normally and changes
  nothing: entries, running flag, timers and everything else are as before.
\<close>

theorem pause_not_running_noop: "\<not> running w \<Longrightarrow> pause w = (Normal, w)"
  by (simp add: pause_def)

text \<open>
  \<^verbatim>\<open>pause()\<close> before any \<^verbatim>\<open>start()\<close>: the registered entry has no timer handle.
\<close>

theorem pause_not_running_noop_witness:
  "\<not> running idle_world \<and> map e_timer (entries idle_world) = [None] \<and>
   pause idle_world = (Normal, idle_world)"
  using pause_not_running_noop [of idle_world]
  by (simp add: idle_world_eq fresh_world_eq TestEntry_def)

end
